theory Spec2Isabelle
  imports Main
begin

section \<open>The ADS-B relay of \<^verbatim>\<open>adsb_proxy.py\<close>\<close>

text \<open>
  The module is one Flask view, \<^verbatim>\<open>adsb\<close>, that issues one \<^verbatim>\<open>requests.get\<close> to a URL
  built at import time and shapes a \<^verbatim>\<open>Response\<close> from what comes back. The model keeps
  the module's names. What the module takes from its libraries (the float formatting of
  an f-string, werkzeug's \<^verbatim>\<open>Response\<close> and \<^verbatim>\<open>Headers\<close>, \<^verbatim>\<open>print\<close>)
  is modelled beside it, each part under its library name.

  Python \<^verbatim>\<open>bytes\<close> are lists of \<^typ>\<open>char\<close> (a \<^typ>\<open>char\<close> is one byte). A Python
  \<^verbatim>\<open>str\<close> is held as the bytes of its UTF-8 encoding, which is what
  \<^verbatim>\<open>Response\<close> stores when it is given a \<^verbatim>\<open>str\<close>.
\<close>

subsection \<open>Module constants\<close>

text \<open>
  \<^verbatim>\<open>DZ_LAT = 42.703153\<close> and \<^verbatim>\<open>DZ_LON = -87.958641\<close> are float literals with six
  decimals. Each is held as the integer number of millionths that the literal denotes.
\<close>

definition DZ_LAT :: int where
  "DZ_LAT = 42703153"

definition DZ_LON :: int where
  "DZ_LON = - 87958641"

text \<open>
  An f-string field \<^verbatim>\<open>{x}\<close> of a float is \<^verbatim>\<open>str(x)\<close>: the shortest decimal that
  reads back as the same float. For a literal of at most 15 significant digits and a
  magnitude from \<^verbatim>\<open>1e-4\<close> up to \<^verbatim>\<open>1e16\<close> that is the literal in positional notation,
  the trailing zeros of its fraction dropped and one fraction digit kept.
  \<open>str_float\<close> takes the value in millionths.
\<close>

definition digit_char :: "nat \<Rightarrow> char" where
  "digit_char d = ''0123456789'' ! d"

fun str_nat :: "nat \<Rightarrow> string" where
  "str_nat n =
     (if n < 10 then [digit_char n] else str_nat (n div 10) @ [digit_char (n mod 10)])"

declare str_nat.simps [simp del]

definition frac6 :: "nat \<Rightarrow> string" where
  "frac6 f =
     (let ds = map (\<lambda>i. digit_char ((f div 10 ^ i) mod 10)) [5, 4, 3, 2, 1, 0];
          t = rev (dropWhile (\<lambda>c. c = CHR ''0'') (rev ds))
      in if t = [] then ''0'' else t)"

definition str_float :: "int \<Rightarrow> string" where
  "str_float m =
     (if m < 0 then ''-'' else [])
       @ str_nat (nat \<bar>m\<bar> div 1000000) @ ''.'' @ frac6 (nat \<bar>m\<bar> mod 1000000)"

text \<open>
  \<^verbatim>\<open>ADSB_LOL_URL = f"https://api.adsb.lol/v2/point/{DZ_LAT}/{DZ_LON}/20"\<close>, evaluated once
  when the module is imported. The radius is the literal \<^verbatim>\<open>20\<close> of the f-string.
\<close>

definition ADSB_LOL_URL :: string where
  "ADSB_LOL_URL =
     ''https://api.adsb.lol/v2/point/'' @ str_float DZ_LAT @ ''/'' @ str_float DZ_LON @ ''/20''"

subsection \<open>The outbound call\<close>

text \<open>
  \<^verbatim>\<open>requests.get(url, timeout=t)\<close> either returns a response object or raises. Of the
  response the model keeps the status code, the body bytes and the header list; of an
  exception (an instance of \<^verbatim>\<open>Exception\<close>, as every error of \<^verbatim>\<open>requests\<close> is) it
  keeps \<^verbatim>\<open>repr(e)\<close> and \<^verbatim>\<open>str(e)\<close>, the two things the view reads.

  \<open>exc_str\<close> is the UTF-8 encoding of \<^verbatim>\<open>str(e)\<close>. A \<^verbatim>\<open>str(e)\<close> that has none (it
  holds a lone surrogate) is not a value of this type: on such an exception
  \<^verbatim>\<open>Response\<close> raises \<^verbatim>\<open>UnicodeEncodeError\<close> inside the \<^verbatim>\<open>except\<close> block and the view
  returns nothing. What is proved below of the failure path is proved of the exceptions
  whose string form can be encoded.
\<close>

type_synonym headers = "(string \<times> string) list"

record requests_response =
  status_code :: int
  content :: string
  headers :: headers

record py_exception =
  exc_repr :: string
  exc_str :: string

text \<open>
  The upstream is a parameter of the view's model: given the URL and the timeout in
  seconds, what the call yields. \<open>Inl\<close> is a raised exception.
\<close>

type_synonym upstream = "string \<Rightarrow> nat \<Rightarrow> py_exception + requests_response"

subsection \<open>The effects of the view\<close>

text \<open>
  The view has two effects: the outbound GET and a \<^verbatim>\<open>print\<close> to standard output.
  The world records both: every outbound call with its URL and timeout, and every
  line printed (one entry per \<^verbatim>\<open>print\<close> call; the newline that ends it is not stored).
\<close>

record world =
  outbound :: "(string \<times> nat) list"
  stdout :: "string list"

text \<open>\<^verbatim>\<open>print(a, b)\<close> writes the two arguments separated by one space.\<close>

definition print2 :: "string \<Rightarrow> string \<Rightarrow> world \<Rightarrow> world" where
  "print2 a b w = w\<lparr>stdout := stdout w @ [a @ '' '' @ b]\<rparr>"

subsection \<open>werkzeug's response object\<close>

text \<open>
  Header names compare without regard to ASCII case.
\<close>

definition lower_char :: "char \<Rightarrow> char" where
  "lower_char c =
     (if 65 \<le> (of_char c :: nat) \<and> (of_char c :: nat) \<le> 90
      then char_of ((of_char c :: nat) + 32) else c)"

definition lower :: "string \<Rightarrow> string" where
  "lower s = map lower_char s"

text \<open>
  \<^verbatim>\<open>Headers.__setitem__\<close>: the first entry of that name is replaced in place and the
  later ones are removed; with no such entry the pair is appended.
\<close>

fun headers_set :: "string \<Rightarrow> string \<Rightarrow> headers \<Rightarrow> headers" where
  "headers_set k v [] = [(k, v)]"
| "headers_set k v ((k', v') # hs) =
     (if lower k' = lower k
      then (k, v) # filter (\<lambda>t. lower (fst t) \<noteq> lower k) hs
      else (k', v') # headers_set k v hs)"

text \<open>\<^verbatim>\<open>Headers.get\<close>: the value of the first entry of that name.\<close>

fun headers_get :: "string \<Rightarrow> headers \<Rightarrow> string option" where
  "headers_get k [] = None"
| "headers_get k ((k', v') # hs) =
     (if lower k' = lower k then Some v' else headers_get k hs)"

text \<open>All values of that name, in order (\<^verbatim>\<open>Headers.getlist\<close>).\<close>

definition headers_getlist :: "string \<Rightarrow> headers \<Rightarrow> string list" where
  "headers_getlist k hs = map snd (filter (\<lambda>t. lower (fst t) = lower k) hs)"

text \<open>
  \<^verbatim>\<open>get_content_type(mimetype, charset)\<close>: the charset parameter is appended to text
  types only.
\<close>

definition charset_mimetypes :: "string list" where
  "charset_mimetypes =
     [''application/ecmascript'', ''application/javascript'', ''application/sql'',
      ''application/xml'', ''application/xml-dtd'',
      ''application/xml-external-parsed-entity'']"

definition startswith :: "string \<Rightarrow> string \<Rightarrow> bool" where
  "startswith s p = (take (length p) s = p)"

definition endswith :: "string \<Rightarrow> string \<Rightarrow> bool" where
  "endswith s p = (length p \<le> length s \<and> drop (length s - length p) s = p)"

definition get_content_type :: "string \<Rightarrow> string \<Rightarrow> string" where
  "get_content_type mimetype charset =
     (if startswith mimetype ''text/'' \<or> mimetype \<in> set charset_mimetypes
         \<or> endswith mimetype ''+xml''
      then mimetype @ ''; charset='' @ charset else mimetype)"

text \<open>
  \<^verbatim>\<open>Response(body, status=s, mimetype=m)\<close>: the constructor sets
  \<^verbatim>\<open>Content-Type\<close> from the mimetype, stores the status, and \<^verbatim>\<open>set_data\<close> stores
  the body and sets \<^verbatim>\<open>Content-Length\<close>.
\<close>

record flask_response =
  status :: int
  data :: string
  resp_headers :: headers

definition Response :: "string \<Rightarrow> int \<Rightarrow> string \<Rightarrow> flask_response" where
  "Response body s mimetype =
     \<lparr>status = s, data = body,
      resp_headers =
        headers_set ''Content-Length'' (str_nat (length body))
          (headers_set ''Content-Type'' (get_content_type mimetype ''utf-8'') [])\<rparr>"

definition content_type :: "flask_response \<Rightarrow> string option" where
  "content_type resp = headers_get ''Content-Type'' (resp_headers resp)"

subsection \<open>The view\<close>

text \<open>
  The two pieces of the format string
  \<^verbatim>\<open>'{"error":"ADS-B proxy exception","detail":"%s"}'\<close> around its one \<^verbatim>\<open>%s\<close>.
\<close>

definition envelope_head :: string where
  \<open>envelope_head = ''{"error":"ADS-B proxy exception","detail":"''\<close>

definition envelope_tail :: string where
  \<open>envelope_tail = ''"}''\<close>

text \<open>
  \<^verbatim>\<open>def adsb()\<close>. The \<^verbatim>\<open>try\<close> body is the \<open>Inr\<close> branch; \<^verbatim>\<open>except Exception as e\<close>
  is the \<open>Inl\<close> branch. The view has no parameter and the module does not import
  Flask's \<^verbatim>\<open>request\<close>.
\<close>

definition adsb :: "upstream \<Rightarrow> world \<Rightarrow> flask_response \<times> world" where
  "adsb requests_get w =
     (let w1 = w\<lparr>outbound := outbound w @ [(ADSB_LOL_URL, 5)]\<rparr> in
      case requests_get ADSB_LOL_URL 5 of
        Inr r \<Rightarrow>
          (let resp = Response (content r) (status_code r) ''application/json'';
               resp = resp\<lparr>resp_headers :=
                        headers_set ''Access-Control-Allow-Origin'' ''*'' (resp_headers resp)\<rparr>
           in (resp, w1))
      | Inl e \<Rightarrow>
          (let w2 = print2 ''ADS-B proxy exception:'' (exc_repr e) w1;
               resp = Response (envelope_head @ exc_str e @ envelope_tail) 500
                        ''application/json'';
               resp = resp\<lparr>resp_headers :=
                        headers_set ''Access-Control-Allow-Origin'' ''*'' (resp_headers resp)\<rparr>
           in (resp, w2)))"

subsection \<open>The route\<close>

text \<open>
  \<^verbatim>\<open>@app.route("/adsb")\<close> registers the view under the rule \<^verbatim>\<open>/adsb\<close> and gives no
  \<^verbatim>\<open>methods\<close> argument. What follows from that is the framework's doing. It is
  taken here from Flask's and werkzeug's documented behaviour, not from code of this
  repository: the methods of a rule are a set, \<^verbatim>\<open>GET\<close> alone when none are given,
  in upper case; \<^verbatim>\<open>HEAD\<close> is added where \<^verbatim>\<open>GET\<close> is allowed, and \<^verbatim>\<open>OPTIONS\<close> is
  added and answered by Flask itself.
\<close>

definition upper_char :: "char \<Rightarrow> char" where
  "upper_char c =
     (if 97 \<le> (of_char c :: nat) \<and> (of_char c :: nat) \<le> 122
      then char_of ((of_char c :: nat) - 32) else c)"

definition upper :: "string \<Rightarrow> string" where
  "upper s = map upper_char s"

definition rule_methods :: "string list option \<Rightarrow> string set" where
  "rule_methods methods =
     (let given = (case methods of None \<Rightarrow> {''GET''} | Some ms \<Rightarrow> set (map upper ms));
          with_head = (if ''GET'' \<in> given then insert ''HEAD'' given else given)
      in insert ''OPTIONS'' with_head)"

definition route_rule :: string where
  "route_rule = ''/adsb''"

text \<open>The decorator of the view has no \<^verbatim>\<open>methods\<close> argument.\<close>

definition route_methods :: "string set" where
  "route_methods = rule_methods None"

text \<open>
  A request is answered by the view, by Flask's own reply to \<^verbatim>\<open>OPTIONS\<close>, or by
  one of the two routing errors; the allowed methods that go into the \<^verbatim>\<open>Allow\<close>
  header are a set (the order in which they are listed is not fixed).
  \<open>req_method\<close> is werkzeug's \<^verbatim>\<open>request.method\<close> (upper case).
\<close>

record request =
  req_method :: string
  req_path :: string
  query_string :: string
  req_headers :: headers
  req_body :: string

datatype reply =
    View flask_response
  | AutomaticOptions "string set"
  | MethodNotAllowed "string set"
  | NotFound

definition dispatch_request :: "request \<Rightarrow> upstream \<Rightarrow> world \<Rightarrow> reply \<times> world" where
  "dispatch_request req requests_get w =
     (if req_path req \<noteq> route_rule then (NotFound, w)
      else if req_method req \<notin> route_methods then (MethodNotAllowed route_methods, w)
      else if req_method req = ''OPTIONS'' then (AutomaticOptions route_methods, w)
      else (case adsb requests_get w of (resp, w') \<Rightarrow> (View resp, w')))"

subsection \<open>Outcomes of the outbound call\<close>

text \<open>
  Two outcomes of the outbound call are the same when both are responses of the same
  status code and body, or both are exceptions of the same string form.
\<close>

fun same_outcome ::
  "py_exception + requests_response \<Rightarrow> py_exception + requests_response \<Rightarrow> bool" where
  "same_outcome (Inr r) (Inr r') = (status_code r = status_code r' \<and> content r = content r')"
| "same_outcome (Inl e) (Inl e') = (exc_str e = exc_str e')"
| "same_outcome (Inr r) (Inl e') = False"
| "same_outcome (Inl e) (Inr r') = False"

subsection \<open>Well-formed JSON texts\<close>

text \<open>
  A recogniser of the JSON grammar of RFC 8259, one byte at a time: the mode says what
  may come next, the stack holds the objects and arrays that are open. Inside a string
  the bytes from \<open>0x80\<close> up pass unexamined (they are the UTF-8 of characters that need
  no escape).
\<close>

datatype ctx = InObject | InArray

datatype mode =
    Value | ValueOrEnd | KeyOrEnd | Key | Colon | After
  | Str bool | Esc bool | Hex bool nat
  | Minus | Zero | IntDigits | Dot | Frac | Exp | ExpSign | ExpDigits
  | Lit string

definition ws :: "char \<Rightarrow> bool" where
  "ws c = (c \<in> set [CHR 0x20, CHR 0x09, CHR 0x0A, CHR 0x0D])"

definition digit :: "char \<Rightarrow> bool" where
  "digit c = (c \<in> set ''0123456789'')"

definition hexdigit :: "char \<Rightarrow> bool" where
  "hexdigit c = (c \<in> set ''0123456789abcdefABCDEF'')"

definition control :: "char \<Rightarrow> bool" where
  "control c = ((of_char c :: nat) < 32)"

definition start_value :: "char \<Rightarrow> ctx list \<Rightarrow> (mode \<times> ctx list) option" where
  "start_value c st =
     (if c = CHR ''{'' then Some (KeyOrEnd, InObject # st)
      else if c = CHR ''['' then Some (ValueOrEnd, InArray # st)
      else if c = CHR 0x22 then Some (Str False, st)
      else if c = CHR ''-'' then Some (Minus, st)
      else if c = CHR ''0'' then Some (Zero, st)
      else if digit c then Some (IntDigits, st)
      else if c = CHR ''t'' then Some (Lit ''rue'', st)
      else if c = CHR ''f'' then Some (Lit ''alse'', st)
      else if c = CHR ''n'' then Some (Lit ''ull'', st)
      else None)"

definition after_value :: "char \<Rightarrow> ctx list \<Rightarrow> (mode \<times> ctx list) option" where
  "after_value c st =
     (if ws c then Some (After, st)
      else case st of
        [] \<Rightarrow> None
      | InObject # st' \<Rightarrow>
          if c = CHR '','' then Some (Key, st)
          else if c = CHR ''}'' then Some (After, st') else None
      | InArray # st' \<Rightarrow>
          if c = CHR '','' then Some (Value, st)
          else if c = CHR '']'' then Some (After, st') else None)"

text \<open>\<open>Str k\<close>: inside a string, which is a member name when \<open>k\<close> holds.\<close>

fun step :: "mode \<Rightarrow> ctx list \<Rightarrow> char \<Rightarrow> (mode \<times> ctx list) option" where
  "step Value st c = (if ws c then Some (Value, st) else start_value c st)"
| "step ValueOrEnd st c =
     (if ws c then Some (ValueOrEnd, st)
      else if c = CHR '']'' then Some (After, tl st) else start_value c st)"
| "step KeyOrEnd st c =
     (if ws c then Some (KeyOrEnd, st)
      else if c = CHR ''}'' then Some (After, tl st)
      else if c = CHR 0x22 then Some (Str True, st) else None)"
| "step Key st c =
     (if ws c then Some (Key, st) else if c = CHR 0x22 then Some (Str True, st) else None)"
| "step Colon st c =
     (if ws c then Some (Colon, st) else if c = CHR '':'' then Some (Value, st) else None)"
| "step After st c = after_value c st"
| "step (Str k) st c =
     (if c = CHR 0x22 then Some (if k then Colon else After, st)
      else if c = CHR 0x5C then Some (Esc k, st)
      else if control c then None else Some (Str k, st))"
| "step (Esc k) st c =
     (if c \<in> set [CHR 0x22, CHR 0x5C, CHR ''/'', CHR ''b'', CHR ''f'', CHR ''n'', CHR ''r'',
                  CHR ''t'']
      then Some (Str k, st)
      else if c = CHR ''u'' then Some (Hex k 4, st) else None)"
| "step (Hex k n) st c =
     (if hexdigit c then Some (if n \<le> 1 then Str k else Hex k (n - 1), st) else None)"
| "step Minus st c =
     (if c = CHR ''0'' then Some (Zero, st)
      else if digit c then Some (IntDigits, st) else None)"
| "step Zero st c =
     (if c = CHR ''.'' then Some (Dot, st)
      else if c = CHR ''e'' \<or> c = CHR ''E'' then Some (Exp, st) else after_value c st)"
| "step IntDigits st c =
     (if digit c then Some (IntDigits, st)
      else if c = CHR ''.'' then Some (Dot, st)
      else if c = CHR ''e'' \<or> c = CHR ''E'' then Some (Exp, st) else after_value c st)"
| "step Dot st c = (if digit c then Some (Frac, st) else None)"
| "step Frac st c =
     (if digit c then Some (Frac, st)
      else if c = CHR ''e'' \<or> c = CHR ''E'' then Some (Exp, st) else after_value c st)"
| "step Exp st c =
     (if c = CHR ''+'' \<or> c = CHR ''-'' then Some (ExpSign, st)
      else if digit c then Some (ExpDigits, st) else None)"
| "step ExpSign st c = (if digit c then Some (ExpDigits, st) else None)"
| "step ExpDigits st c = (if digit c then Some (ExpDigits, st) else after_value c st)"
| "step (Lit r) st c =
     (case r of
        [] \<Rightarrow> None
      | x # r' \<Rightarrow> if c = x then Some (if r' = [] then After else Lit r', st) else None)"

fun run :: "mode \<times> ctx list \<Rightarrow> string \<Rightarrow> (mode \<times> ctx list) option" where
  "run s [] = Some s"
| "run s (c # cs) =
     (case step (fst s) (snd s) c of None \<Rightarrow> None | Some s' \<Rightarrow> run s' cs)"

text \<open>A text may end after a value; a number ends where the text does.\<close>

definition complete :: "mode \<Rightarrow> bool" where
  "complete m = (m \<in> set [After, Zero, IntDigits, Frac, ExpDigits])"

definition is_json :: "string \<Rightarrow> bool" where
  "is_json s =
     (case run (Value, []) s of
        None \<Rightarrow> False
      | Some (m, st) \<Rightarrow> st = [] \<and> complete m)"

text \<open>
  The bytes that stand for themselves inside a JSON string: no quote, no backslash,
  no control character.
\<close>

definition plain :: "char \<Rightarrow> bool" where
  "plain c = (c \<noteq> CHR 0x22 \<and> c \<noteq> CHR 0x5C \<and> \<not> control c)"

subsection \<open>Reading the members of a JSON object\<close>

text \<open>
  What a JSON reader gets from a text that is one object whose member values are
  all strings, none of them written with an escape sequence: the names and values in
  the order of the text. On any other text the reader answers \<open>None\<close>. Without
  escape sequences the bytes between the quotes are the string itself.
\<close>

datatype rmode =
    RStart | RKeyOrEnd | RKey | RInKey string | RColon string | RValue string
  | RInValue string string | RAfter | RDone

type_synonym members = "(string \<times> string) list"

fun rstep :: "rmode \<Rightarrow> members \<Rightarrow> char \<Rightarrow> (rmode \<times> members) option" where
  "rstep RStart ms c =
     (if ws c then Some (RStart, ms) else if c = CHR ''{'' then Some (RKeyOrEnd, ms) else None)"
| "rstep RKeyOrEnd ms c =
     (if ws c then Some (RKeyOrEnd, ms)
      else if c = CHR ''}'' then Some (RDone, ms)
      else if c = CHR 0x22 then Some (RInKey [], ms) else None)"
| "rstep RKey ms c =
     (if ws c then Some (RKey, ms) else if c = CHR 0x22 then Some (RInKey [], ms) else None)"
| "rstep (RInKey k) ms c =
     (if c = CHR 0x22 then Some (RColon k, ms)
      else if plain c then Some (RInKey (k @ [c]), ms) else None)"
| "rstep (RColon k) ms c =
     (if ws c then Some (RColon k, ms) else if c = CHR '':'' then Some (RValue k, ms) else None)"
| "rstep (RValue k) ms c =
     (if ws c then Some (RValue k, ms)
      else if c = CHR 0x22 then Some (RInValue k [], ms) else None)"
| "rstep (RInValue k v) ms c =
     (if c = CHR 0x22 then Some (RAfter, ms @ [(k, v)])
      else if plain c then Some (RInValue k (v @ [c]), ms) else None)"
| "rstep RAfter ms c =
     (if ws c then Some (RAfter, ms)
      else if c = CHR '','' then Some (RKey, ms)
      else if c = CHR ''}'' then Some (RDone, ms) else None)"
| "rstep RDone ms c = (if ws c then Some (RDone, ms) else None)"

fun rrun :: "rmode \<times> members \<Rightarrow> string \<Rightarrow> (rmode \<times> members) option" where
  "rrun s [] = Some s"
| "rrun s (c # cs) =
     (case rstep (fst s) (snd s) c of None \<Rightarrow> None | Some s' \<Rightarrow> rrun s' cs)"

definition read_members :: "string \<Rightarrow> members option" where
  "read_members s =
     (case rrun (RStart, []) s of
        Some (RDone, ms) \<Rightarrow> Some ms
      | _ \<Rightarrow> None)"

text \<open>
  The value of the member \<open>k\<close>; of two members of one name a reader keeps the later.
  \<open>None\<close> is a text outside the reader's domain or an object without that member.
\<close>

definition json_member :: "string \<Rightarrow> string \<Rightarrow> string option" where
  "json_member k s =
     (case read_members s of None \<Rightarrow> None | Some ms \<Rightarrow> map_of (rev ms) k)"

subsection \<open>Concrete inputs\<close>

definition fresh :: world where
  "fresh = \<lparr>outbound = [], stdout = []\<rparr>"

text \<open>An upstream that answers every call with the same response.\<close>

definition answers :: "requests_response \<Rightarrow> upstream" where
  "answers r = (\<lambda>url t. Inr r)"

text \<open>An upstream on which every call raises the same exception.\<close>

definition raises :: "py_exception \<Rightarrow> upstream" where
  "raises e = (\<lambda>url t. Inl e)"

text \<open>Upstream responses: an empty aircraft list, and a refusal declared as HTML.\<close>

definition no_aircraft :: requests_response where
  \<open>no_aircraft =
     \<lparr>status_code = 200, content = ''{"ac":[]}'',
      headers = [(''Content-Type'', ''application/json''), (''Cache-Control'', ''no-store'')]\<rparr>\<close>

definition rate_limited :: requests_response where
  \<open>rate_limited =
     \<lparr>status_code = 503, content = ''{"error":"rate limited"}'',
      headers = [(''Content-Type'', ''text/html; charset=utf-8''), (''Retry-After'', ''30'')]\<rparr>\<close>

text \<open>
  Exceptions: a read timeout as \<^verbatim>\<open>requests\<close> raises it, an exception made with no
  argument (\<^verbatim>\<open>str(Timeout())\<close> is the empty string), and a failed name resolution,
  whose message quotes the inner error with double quotes (its \<^verbatim>\<open>repr\<close>, which only
  the log line shows, is cut short here).
\<close>

definition read_timeout :: py_exception where
  \<open>read_timeout =
     \<lparr>exc_repr = ''ReadTimeout(ReadTimeoutError("HTTPSConnectionPool(host='api.adsb.lol', port=443): Read timed out. (read timeout=5)"))'',
      exc_str = ''HTTPSConnectionPool(host='api.adsb.lol', port=443): Read timed out. (read timeout=5)''\<rparr>\<close>

definition bare_timeout :: py_exception where
  "bare_timeout = \<lparr>exc_repr = ''Timeout()'', exc_str = []\<rparr>"

text \<open>An exception whose message closes the detail string and opens a member of its own.\<close>

definition closing_message :: py_exception where
  \<open>closing_message = \<lparr>exc_repr = ''Exception(...)'', exc_str = ''","x":"y''\<rparr>\<close>

definition dns_failure :: py_exception where
  \<open>dns_failure =
     \<lparr>exc_repr = ''ConnectionError(MaxRetryError(...))'',
      exc_str = ''HTTPSConnectionPool(host='api.adsb.lol', port=443): Max retries exceeded with url: /v2/point/42.703153/-87.958641/20 (Caused by NameResolutionError("<urllib3.connection.HTTPSConnection object at 0x7f3a5c1d2e50>: Failed to resolve 'api.adsb.lol' ([Errno -2] Name or service not known)"))''\<rparr>\<close>

text \<open>
  Inbound requests: a \<^verbatim>\<open>GET\<close> that carries a query string and headers, and a \<^verbatim>\<open>POST\<close>.
\<close>

definition tracked_get :: request where
  "tracked_get =
     \<lparr>req_method = ''GET'', req_path = ''/adsb'', query_string = ''lat=51.5&lon=-0.12&radius=250'',
      req_headers = [(''Host'', ''example.org''), (''Origin'', ''https://example.org'')],
      req_body = []\<rparr>"

definition post_adsb :: request where
  \<open>post_adsb =
     \<lparr>req_method = ''POST'', req_path = ''/adsb'', query_string = [],
      req_headers = [(''Content-Type'', ''application/json'')],
      req_body = ''{"lat":0}''\<rparr>\<close>

text \<open>Two exceptions of different classes and the same string form.\<close>

definition connection_reset :: py_exception where
  \<open>connection_reset =
     \<lparr>exc_repr = ''ConnectionError('Connection aborted.')'', exc_str = ''Connection aborted.''\<rparr>\<close>

definition chunked_reset :: py_exception where
  \<open>chunked_reset =
     \<lparr>exc_repr = ''ChunkedEncodingError('Connection aborted.')'', exc_str = ''Connection aborted.''\<rparr>\<close>

text \<open>A world in which one call has been made and one line printed.\<close>

definition busy :: world where
  "busy = \<lparr>outbound = [(''https://api.adsb.lol/v2/point/42.703153/-87.958641/20'', 5)],
            stdout = [''ADS-B proxy exception: Timeout()'']\<rparr>"

section \<open>Properties\<close>

subsection \<open>The methods of the route\<close>

lemma route_methods_eq: "route_methods = {''GET'', ''HEAD'', ''OPTIONS''}"
  by (auto simp: route_methods_def rule_methods_def)

subsection \<open>Headers\<close>

lemma headers_get_set_same: "headers_get k (headers_set k v hs) = Some v"
  by (induction hs) auto

lemma headers_get_set_other:
  "lower k' \<noteq> lower k \<Longrightarrow> headers_get k' (headers_set k v hs) = headers_get k' hs"
proof (induction hs)
  case Nil
  then show ?case by simp
next
  case (Cons h hs)
  have drop_k: "headers_get k' (filter (\<lambda>t. lower (fst t) \<noteq> lower k) xs) = headers_get k' xs"
    for xs
    using Cons.prems by (induction xs) auto
  obtain a b where h: "h = (a, b)" by (cases h)
  show ?case
    using Cons drop_k by (auto simp: h)
qed

lemma json_content_type: "get_content_type ''application/json'' cs = ''application/json''"
  by (simp add: get_content_type_def startswith_def endswith_def charset_mimetypes_def)

lemma ADSB_LOL_URL_value:
  "ADSB_LOL_URL = ''https://api.adsb.lol/v2/point/42.703153/-87.958641/20''"
  by (simp add: ADSB_LOL_URL_def str_float_def DZ_LAT_def DZ_LON_def frac6_def digit_char_def
      str_nat.simps)

lemma Response_json:
  "Response body s ''application/json'' =
     \<lparr>status = s, data = body,
      resp_headers =
        [(''Content-Type'', ''application/json''), (''Content-Length'', str_nat (length body))]\<rparr>"
  by (simp add: Response_def json_content_type lower_def lower_char_def)

lemma json_cors_headers:
  "content_type \<lparr>status = s, data = b,
      resp_headers = [(''Content-Type'', ''application/json''), (''Content-Length'', n),
        (''Access-Control-Allow-Origin'', ''*'')]\<rparr> = Some ''application/json''"
  "headers_getlist ''Access-Control-Allow-Origin''
     [(''Content-Type'', ''application/json''), (''Content-Length'', n),
        (''Access-Control-Allow-Origin'', ''*'')] = [''*'']"
  by (simp_all add: content_type_def headers_getlist_def lower_def lower_char_def)

subsection \<open>The two paths of the view\<close>

text \<open>What the view returns and does when the outbound call returns a response.\<close>

lemma adsb_Inr:
  assumes "requests_get ADSB_LOL_URL 5 = Inr r"
  shows "adsb requests_get w =
    (\<lparr>status = status_code r, data = content r,
      resp_headers = [(''Content-Type'', ''application/json''),
        (''Content-Length'', str_nat (length (content r))),
        (''Access-Control-Allow-Origin'', ''*'')]\<rparr>,
     w\<lparr>outbound := outbound w @ [(ADSB_LOL_URL, 5)]\<rparr>)"
  using assms by (simp add: adsb_def Let_def Response_json lower_def lower_char_def)

text \<open>What it returns and does when the outbound call raises.\<close>

lemma adsb_Inl:
  assumes "requests_get ADSB_LOL_URL 5 = Inl e"
  shows "adsb requests_get w =
    (\<lparr>status = 500, data = envelope_head @ exc_str e @ envelope_tail,
      resp_headers = [(''Content-Type'', ''application/json''),
        (''Content-Length'', str_nat (length (envelope_head @ exc_str e @ envelope_tail))),
        (''Access-Control-Allow-Origin'', ''*'')]\<rparr>,
     w\<lparr>outbound := outbound w @ [(ADSB_LOL_URL, 5)],
       stdout := stdout w @ [''ADS-B proxy exception: '' @ exc_repr e]\<rparr>)"
  using assms by (simp add: adsb_def Let_def Response_json print2_def lower_def lower_char_def)

subsection \<open>The success path\<close>

text \<open>
  C1. When the outbound call returns a response with status code \<open>S\<close> and body \<open>B\<close>,
  the view returns a response with status \<open>S\<close>, body exactly \<open>B\<close>, content type
  \<^verbatim>\<open>application/json\<close> and the one header \<^verbatim>\<open>Access-Control-Allow-Origin: *\<close>.
\<close>

theorem adsb_relays_success:
  assumes "requests_get ADSB_LOL_URL 5 = Inr r"
  shows "status (fst (adsb requests_get w)) = status_code r
    \<and> data (fst (adsb requests_get w)) = content r
    \<and> content_type (fst (adsb requests_get w)) = Some ''application/json''
    \<and> headers_getlist ''Access-Control-Allow-Origin''
          (resp_headers (fst (adsb requests_get w))) = [''*'']"
  by (simp add: adsb_Inr [of requests_get r w, OF assms] json_cors_headers)

text \<open>The upstream answers 503 with a body and declares HTML.\<close>

theorem adsb_relays_success_witness:
  \<open>answers rate_limited ADSB_LOL_URL 5 = Inr rate_limited
    \<and> status (fst (adsb (answers rate_limited) fresh)) = 503
    \<and> data (fst (adsb (answers rate_limited) fresh)) = ''{"error":"rate limited"}''
    \<and> content_type (fst (adsb (answers rate_limited) fresh)) = Some ''application/json''
    \<and> headers_getlist ''Access-Control-Allow-Origin''
          (resp_headers (fst (adsb (answers rate_limited) fresh))) = [''*'']\<close>
proof -
  have up: "answers rate_limited ADSB_LOL_URL 5 = Inr rate_limited"
    by (simp add: answers_def)
  show ?thesis
    using up adsb_relays_success [of "answers rate_limited" rate_limited fresh, OF up]
    by (simp add: rate_limited_def)
qed

subsection \<open>The failure path\<close>

text \<open>
  The recogniser and the reader work through a text piece by piece, and stay inside
  a string while the bytes are plain.
\<close>

lemma run_append:
  "run s (xs @ ys) = (case run s xs of None \<Rightarrow> None | Some s' \<Rightarrow> run s' ys)"
  by (induction xs arbitrary: s) (auto split: option.splits)

lemma run_plain: "list_all plain d \<Longrightarrow> run (Str k, st) d = Some (Str k, st)"
  by (induction d) (auto simp: plain_def)

lemma run_envelope_head: "run (Value, []) envelope_head = Some (Str False, [InObject])"
  by (simp add: envelope_head_def start_value_def after_value_def ws_def control_def)

lemma run_envelope_tail: "run (Str False, [InObject]) envelope_tail = Some (After, [])"
  by (simp add: envelope_tail_def after_value_def ws_def)

lemma envelope_json_plain:
  assumes "list_all plain d"
  shows "is_json (envelope_head @ d @ envelope_tail)"
  by (simp add: is_json_def run_append run_envelope_head run_plain [OF assms] run_envelope_tail
      complete_def)

lemma rrun_append:
  "rrun s (xs @ ys) = (case rrun s xs of None \<Rightarrow> None | Some s' \<Rightarrow> rrun s' ys)"
  by (induction xs arbitrary: s) (auto split: option.splits)

lemma rrun_plain:
  "list_all plain d \<Longrightarrow> rrun (RInValue k v, ms) d = Some (RInValue k (v @ d), ms)"
  by (induction d arbitrary: v) (auto simp: plain_def)

lemma rrun_envelope_head:
  "rrun (RStart, []) envelope_head =
     Some (RInValue ''detail'' [], [(''error'', ''ADS-B proxy exception'')])"
  by (simp add: envelope_head_def ws_def plain_def control_def)

lemma rrun_envelope_tail:
  "rrun (RInValue k v, ms) envelope_tail = Some (RDone, ms @ [(k, v)])"
  by (simp add: envelope_tail_def ws_def)

text \<open>
  The envelope around a plain message is an object of two members, and its detail is
  the message.
\<close>

lemma envelope_members_plain:
  assumes "list_all plain d"
  shows "read_members (envelope_head @ d @ envelope_tail) =
    Some [(''error'', ''ADS-B proxy exception''), (''detail'', d)]"
  by (simp add: read_members_def rrun_append rrun_envelope_head rrun_plain [OF assms]
      rrun_envelope_tail)

text \<open>
  C2, as the code has it. When the outbound call raises \<open>e\<close> (with a string form that
  can be encoded), the view returns status 500, content type \<^verbatim>\<open>application/json\<close> and
  the CORS header. When \<^verbatim>\<open>str(e)\<close> holds no double quote, no backslash and no control
  character, the body is \<^verbatim>\<open>{"error":"ADS-B proxy exception","detail":"\<close>, then
  \<^verbatim>\<open>str(e)\<close>, then \<^verbatim>\<open>"}\<close>: a JSON object whose \<^verbatim>\<open>error\<close> member is the fixed text
  and whose \<^verbatim>\<open>detail\<close> member is \<^verbatim>\<open>str(e)\<close>, which may be empty. Nothing is said of
  the body for a message that would need escaping.
\<close>

theorem adsb_failure_envelope:
  assumes "requests_get ADSB_LOL_URL 5 = Inl e"
  shows \<open>status (fst (adsb requests_get w)) = 500
    \<and> content_type (fst (adsb requests_get w)) = Some ''application/json''
    \<and> headers_getlist ''Access-Control-Allow-Origin''
          (resp_headers (fst (adsb requests_get w))) = [''*'']
    \<and> (list_all plain (exc_str e) \<longrightarrow>
          data (fst (adsb requests_get w)) =
            ''{"error":"ADS-B proxy exception","detail":"'' @ exc_str e @ ''"}''
        \<and> is_json (data (fst (adsb requests_get w)))
        \<and> json_member ''error'' (data (fst (adsb requests_get w))) =
            Some ''ADS-B proxy exception''
        \<and> json_member ''detail'' (data (fst (adsb requests_get w))) = Some (exc_str e))\<close>
proof -
  note ran = adsb_Inl [of requests_get e w, OF assms]
  have body: "data (fst (adsb requests_get w)) = envelope_head @ exc_str e @ envelope_tail"
    by (simp add: ran)
  have shape: "status (fst (adsb requests_get w)) = 500
      \<and> content_type (fst (adsb requests_get w)) = Some ''application/json''
      \<and> headers_getlist ''Access-Control-Allow-Origin''
            (resp_headers (fst (adsb requests_get w))) = [''*'']"
    by (simp add: ran json_cors_headers)
  have lit: \<open>envelope_head @ exc_str e @ envelope_tail =
      ''{"error":"ADS-B proxy exception","detail":"'' @ exc_str e @ ''"}''\<close>
    by (simp add: envelope_head_def envelope_tail_def)
  have json: "is_json (data (fst (adsb requests_get w)))"
    and err: "json_member ''error'' (data (fst (adsb requests_get w))) =
      Some ''ADS-B proxy exception''"
    and detail: "json_member ''detail'' (data (fst (adsb requests_get w))) = Some (exc_str e)"
    if "list_all plain (exc_str e)"
    using that
    by (simp_all add: body envelope_json_plain json_member_def envelope_members_plain)
  show ?thesis
    using shape json err detail body lit by simp
qed

text \<open>The upstream does not answer within the read timeout.\<close>

theorem adsb_failure_envelope_witness:
  \<open>raises read_timeout ADSB_LOL_URL 5 = Inl read_timeout
    \<and> list_all plain (exc_str read_timeout)
    \<and> status (fst (adsb (raises read_timeout) fresh)) = 500
    \<and> content_type (fst (adsb (raises read_timeout) fresh)) = Some ''application/json''
    \<and> headers_getlist ''Access-Control-Allow-Origin''
          (resp_headers (fst (adsb (raises read_timeout) fresh))) = [''*'']
    \<and> data (fst (adsb (raises read_timeout) fresh)) =
        ''{"error":"ADS-B proxy exception","detail":"HTTPSConnectionPool(host='api.adsb.lol', port=443): Read timed out. (read timeout=5)"}''
    \<and> is_json (data (fst (adsb (raises read_timeout) fresh)))
    \<and> json_member ''detail'' (data (fst (adsb (raises read_timeout) fresh))) =
        Some ''HTTPSConnectionPool(host='api.adsb.lol', port=443): Read timed out. (read timeout=5)''\<close>
proof -
  have up: "raises read_timeout ADSB_LOL_URL 5 = Inl read_timeout"
    by (simp add: raises_def)
  have str: \<open>exc_str read_timeout =
      ''HTTPSConnectionPool(host='api.adsb.lol', port=443): Read timed out. (read timeout=5)''\<close>
    by (simp add: read_timeout_def)
  have ok: "list_all plain (exc_str read_timeout)"
    unfolding str by (simp add: plain_def control_def)
  note inst = adsb_failure_envelope [of "raises read_timeout" read_timeout fresh, OF up]
  have body: \<open>data (fst (adsb (raises read_timeout) fresh)) =
      ''{"error":"ADS-B proxy exception","detail":"HTTPSConnectionPool(host='api.adsb.lol', port=443): Read timed out. (read timeout=5)"}''\<close>
    using inst ok by (simp add: str)
  show ?thesis
    using up ok inst body str by metis
qed

text \<open>
  C2, as the specification states it, asks for a non-empty detail on every failure. An
  exception whose string form is empty gives a body whose detail member is the empty
  string.
\<close>

theorem adsb_failure_detail_counterexample:
  \<open>raises bare_timeout ADSB_LOL_URL 5 = Inl bare_timeout
    \<and> data (fst (adsb (raises bare_timeout) fresh)) =
        ''{"error":"ADS-B proxy exception","detail":""}''
    \<and> json_member ''detail'' (data (fst (adsb (raises bare_timeout) fresh))) = Some []\<close>
proof -
  have up: "raises bare_timeout ADSB_LOL_URL 5 = Inl bare_timeout"
    by (simp add: raises_def)
  note ran = adsb_Inl [of "raises bare_timeout" bare_timeout fresh, OF up]
  have body: "data (fst (adsb (raises bare_timeout) fresh)) = envelope_head @ [] @ envelope_tail"
    by (simp add: ran) (simp add: bare_timeout_def)
  have "json_member ''detail'' (data (fst (adsb (raises bare_timeout) fresh))) = Some []"
    unfolding body using envelope_members_plain [of "[]"] by (simp add: json_member_def)
  then show ?thesis
    using up body by (simp add: envelope_head_def envelope_tail_def)
qed

text \<open>
  Why the detail is tied to plain messages: a message with double quotes of its own
  can leave a well-formed object whose detail member is not the message.
\<close>

lemma envelope_member_closed_early:
  \<open>data (fst (adsb (raises closing_message) fresh)) =
      ''{"error":"ADS-B proxy exception","detail":"","x":"y"}''
    \<and> is_json (data (fst (adsb (raises closing_message) fresh)))
    \<and> json_member ''detail'' (data (fst (adsb (raises closing_message) fresh))) = Some []
    \<and> exc_str closing_message \<noteq> []\<close>
proof -
  have up: "raises closing_message ADSB_LOL_URL 5 = Inl closing_message"
    by (simp add: raises_def)
  note ran = adsb_Inl [of "raises closing_message" closing_message fresh, OF up]
  have body: \<open>data (fst (adsb (raises closing_message) fresh)) =
      ''{"error":"ADS-B proxy exception","detail":"","x":"y"}''\<close>
    by (simp add: ran) (simp add: closing_message_def envelope_head_def envelope_tail_def)
  have \<open>is_json ''{"error":"ADS-B proxy exception","detail":"","x":"y"}''\<close>
    by (simp add: is_json_def complete_def start_value_def after_value_def ws_def control_def)
  moreover have
    \<open>json_member ''detail'' ''{"error":"ADS-B proxy exception","detail":"","x":"y"}'' = Some []\<close>
    by (simp add: json_member_def read_members_def ws_def plain_def control_def)
  ultimately show ?thesis
    unfolding body by (simp add: closing_message_def)
qed

subsection \<open>Both paths\<close>

text \<open>
  C3. Every response of the view, whether the outbound call returned or raised and
  whatever content type the upstream declared, has content type
  \<^verbatim>\<open>application/json\<close> and the one header \<^verbatim>\<open>Access-Control-Allow-Origin: *\<close>.
\<close>

theorem adsb_always_json_cors:
  "content_type (fst (adsb requests_get w)) = Some ''application/json''
    \<and> headers_getlist ''Access-Control-Allow-Origin''
          (resp_headers (fst (adsb requests_get w))) = [''*'']"
proof (cases "requests_get ADSB_LOL_URL 5")
  case (Inl e)
  then show ?thesis
    by (simp add: adsb_Inl [of requests_get e w] json_cors_headers)
next
  case (Inr r)
  then show ?thesis
    by (simp add: adsb_Inr [of requests_get r w] json_cors_headers)
qed

text \<open>An upstream that declared HTML, and an upstream that timed out.\<close>

theorem adsb_always_json_cors_witness:
  "content_type (fst (adsb (answers rate_limited) fresh)) = Some ''application/json''
    \<and> headers_getlist ''Access-Control-Allow-Origin''
          (resp_headers (fst (adsb (answers rate_limited) fresh))) = [''*'']
    \<and> content_type (fst (adsb (raises read_timeout) fresh)) = Some ''application/json''
    \<and> headers_getlist ''Access-Control-Allow-Origin''
          (resp_headers (fst (adsb (raises read_timeout) fresh))) = [''*'']"
  using adsb_always_json_cors [of "answers rate_limited" fresh]
    adsb_always_json_cors [of "raises read_timeout" fresh]
  by simp

subsection \<open>The outbound call and the log\<close>

text \<open>
  C5. The URL is one fixed string, \<^verbatim>\<open>https://api.adsb.lol/v2/point/42.703153/-87.958641/20\<close>,
  a constant of the module built from the two coordinates and the radius 20. Every run
  of the view issues its outbound GET to that string, and so does every request that
  Flask routes to the view, whatever the request carries.
\<close>

theorem adsb_fixed_url:
  "ADSB_LOL_URL = ''https://api.adsb.lol/v2/point/42.703153/-87.958641/20''
    \<and> outbound (snd (adsb requests_get w)) =
        outbound w @ [(''https://api.adsb.lol/v2/point/42.703153/-87.958641/20'', 5)]
    \<and> (req_path req = ''/adsb'' \<and> (req_method req = ''GET'' \<or> req_method req = ''HEAD'') \<longrightarrow>
        outbound (snd (dispatch_request req requests_get w)) =
          outbound w @ [(''https://api.adsb.lol/v2/point/42.703153/-87.958641/20'', 5)])"
proof -
  have call: "outbound (snd (adsb requests_get w)) = outbound w @ [(ADSB_LOL_URL, 5)]"
    by (cases "requests_get ADSB_LOL_URL 5")
      (simp_all add: adsb_Inl [of requests_get _ w] adsb_Inr [of requests_get _ w])
  have routed: "snd (dispatch_request req requests_get w) = snd (adsb requests_get w)"
    if "req_path req = ''/adsb''" "req_method req = ''GET'' \<or> req_method req = ''HEAD''"
    using that
    by (auto simp: dispatch_request_def route_rule_def route_methods_eq split: prod.splits)
  show ?thesis
    using call routed by (simp add: ADSB_LOL_URL_value)
qed

text \<open>A request with coordinates of its own in the query string changes nothing.\<close>

theorem adsb_fixed_url_witness:
  "req_path tracked_get = ''/adsb'' \<and> req_method tracked_get = ''GET''
    \<and> outbound (snd (dispatch_request tracked_get (answers no_aircraft) fresh)) =
        [(''https://api.adsb.lol/v2/point/42.703153/-87.958641/20'', 5)]
    \<and> outbound (snd (dispatch_request tracked_get (raises read_timeout) fresh)) =
        [(''https://api.adsb.lol/v2/point/42.703153/-87.958641/20'', 5)]"
  using adsb_fixed_url [of "answers no_aircraft" fresh tracked_get]
    adsb_fixed_url [of "raises read_timeout" fresh tracked_get]
  by (simp add: tracked_get_def fresh_def)

text \<open>
  C7. Every run of the view makes exactly one outbound call, with the timeout argument
  5, and no second one when the first fails. It prints exactly one line, made of
  \<^verbatim>\<open>ADS-B proxy exception:\<close> and \<^verbatim>\<open>repr(e)\<close> (the class of the exception and its
  arguments), when the call raised \<open>e\<close>, and prints nothing when the call returned.
\<close>

theorem adsb_one_call_log_on_failure:
  "outbound (snd (adsb requests_get w)) = outbound w @ [(ADSB_LOL_URL, 5)]
    \<and> stdout (snd (adsb requests_get w)) =
        stdout w @ (case requests_get ADSB_LOL_URL 5 of
                      Inl e \<Rightarrow> [''ADS-B proxy exception: '' @ exc_repr e]
                    | Inr r \<Rightarrow> [])"
  by (cases "requests_get ADSB_LOL_URL 5")
    (simp_all add: adsb_Inl [of requests_get _ w] adsb_Inr [of requests_get _ w])

text \<open>A failing and a succeeding run, each from a world that already has history.\<close>

theorem adsb_one_call_log_on_failure_witness:
  "length (outbound (snd (adsb (raises bare_timeout) busy))) = length (outbound busy) + 1
    \<and> stdout (snd (adsb (raises bare_timeout) busy)) =
        stdout busy @ [''ADS-B proxy exception: Timeout()'']
    \<and> length (outbound (snd (adsb (answers no_aircraft) busy))) = length (outbound busy) + 1
    \<and> stdout (snd (adsb (answers no_aircraft) busy)) = stdout busy"
  using adsb_one_call_log_on_failure [of "raises bare_timeout" busy]
    adsb_one_call_log_on_failure [of "answers no_aircraft" busy]
  by (simp add: raises_def answers_def bare_timeout_def)

subsection \<open>What the response depends on\<close>

text \<open>
  C8. Two runs of the view in which the outbound call has the same outcome (the same
  status code and body, or exceptions of the same string form) return the same
  response: status, body and every header, whatever the worlds they ran in.
\<close>

theorem adsb_deterministic:
  assumes "same_outcome (up1 ADSB_LOL_URL 5) (up2 ADSB_LOL_URL 5)"
  shows "fst (adsb up1 w1) = fst (adsb up2 w2)"
proof (cases "up1 ADSB_LOL_URL 5")
  case l1: (Inl e1)
  then obtain e2 where l2: "up2 ADSB_LOL_URL 5 = Inl e2" and "exc_str e1 = exc_str e2"
    using assms by (cases "up2 ADSB_LOL_URL 5") auto
  then show ?thesis
    by (simp add: adsb_Inl [of up1 e1 w1, OF l1] adsb_Inl [of up2 e2 w2, OF l2])
next
  case r1: (Inr r1)
  then obtain r2 where r2: "up2 ADSB_LOL_URL 5 = Inr r2"
    and "status_code r1 = status_code r2" "content r1 = content r2"
    using assms by (cases "up2 ADSB_LOL_URL 5") auto
  then show ?thesis
    by (simp add: adsb_Inr [of up1 r1 w1, OF r1] adsb_Inr [of up2 r2 w2, OF r2])
qed

text \<open>Exceptions of two classes with one message, in two different worlds.\<close>

theorem adsb_deterministic_witness:
  "same_outcome (raises connection_reset ADSB_LOL_URL 5) (raises chunked_reset ADSB_LOL_URL 5)
    \<and> connection_reset \<noteq> chunked_reset \<and> fresh \<noteq> busy
    \<and> fst (adsb (raises connection_reset) fresh) = fst (adsb (raises chunked_reset) busy)"
proof -
  have same: "same_outcome (raises connection_reset ADSB_LOL_URL 5)
      (raises chunked_reset ADSB_LOL_URL 5)"
    by (simp add: raises_def connection_reset_def chunked_reset_def)
  have "connection_reset \<noteq> chunked_reset"
    by (simp add: connection_reset_def chunked_reset_def)
  moreover have "fresh \<noteq> busy"
    by (simp add: fresh_def busy_def)
  ultimately show ?thesis
    using same adsb_deterministic [of "raises connection_reset" "raises chunked_reset" fresh busy, OF same]
    by simp
qed

text \<open>
  C9. On the success path the response is made of the upstream status code and body
  alone: its headers are \<^verbatim>\<open>Content-Type\<close>, \<^verbatim>\<open>Content-Length\<close> (the length of
  the body) and the CORS header, and replacing the upstream's header list by any other
  leaves the response as it is.
\<close>

theorem adsb_ignores_upstream_headers:
  assumes "requests_get ADSB_LOL_URL 5 = Inr r"
  shows "fst (adsb requests_get w) =
      \<lparr>status = status_code r, data = content r,
       resp_headers = [(''Content-Type'', ''application/json''),
         (''Content-Length'', str_nat (length (content r))),
         (''Access-Control-Allow-Origin'', ''*'')]\<rparr>
    \<and> fst (adsb (answers (r\<lparr>headers := hs\<rparr>)) w') = fst (adsb requests_get w)"
proof -
  have "answers (r\<lparr>headers := hs\<rparr>) ADSB_LOL_URL 5 = Inr (r\<lparr>headers := hs\<rparr>)"
    by (simp add: answers_def)
  from adsb_Inr [of "answers (r\<lparr>headers := hs\<rparr>)" "r\<lparr>headers := hs\<rparr>" w', OF this]
  show ?thesis
    by (simp add: adsb_Inr [of requests_get r w, OF assms])
qed

text \<open>
  An upstream that declares HTML, an encoding, an origin of its own and a cookie.
\<close>

theorem adsb_ignores_upstream_headers_witness:
  \<open>answers no_aircraft ADSB_LOL_URL 5 = Inr no_aircraft
    \<and> fst (adsb (answers no_aircraft) fresh) =
      \<lparr>status = 200, data = ''{"ac":[]}'',
       resp_headers = [(''Content-Type'', ''application/json''), (''Content-Length'', ''9''),
         (''Access-Control-Allow-Origin'', ''*'')]\<rparr>
    \<and> fst (adsb (answers (no_aircraft\<lparr>headers :=
          [(''Content-Type'', ''text/html''), (''Content-Encoding'', ''gzip''),
           (''Access-Control-Allow-Origin'', ''https://adsb.lol''),
           (''Set-Cookie'', ''session=1'')]\<rparr>)) busy) =
        fst (adsb (answers no_aircraft) fresh)\<close>
proof -
  have up: "answers no_aircraft ADSB_LOL_URL 5 = Inr no_aircraft"
    by (simp add: answers_def)
  have fields: \<open>status_code no_aircraft = 200\<close> \<open>content no_aircraft = ''{"ac":[]}''\<close>
    by (simp_all add: no_aircraft_def)
  have nine: \<open>length ''{"ac":[]}'' = 9\<close>
    by simp
  have len: \<open>str_nat (length ''{"ac":[]}'') = ''9''\<close>
    unfolding nine by (simp add: str_nat.simps digit_char_def)
  note inst = adsb_ignores_upstream_headers [of "answers no_aircraft" no_aircraft fresh
      "[(''Content-Type'', ''text/html''), (''Content-Encoding'', ''gzip''),
        (''Access-Control-Allow-Origin'', ''https://adsb.lol''), (''Set-Cookie'', ''session=1'')]"
      busy, OF up]
  show ?thesis
    using up inst by (simp only: fields len)
qed

subsection \<open>Other methods\<close>

text \<open>
  C10. A request to \<^verbatim>\<open>/adsb\<close> whose method is not \<^verbatim>\<open>GET\<close>, \<^verbatim>\<open>HEAD\<close> or
  \<^verbatim>\<open>OPTIONS\<close> is answered by Flask with \<^verbatim>\<open>MethodNotAllowed\<close> for the set of the
  three allowed methods: the view does not run and the world is unchanged, so no
  outbound call is made and nothing is printed.
\<close>

theorem adsb_other_methods_rejected:
  assumes "req_path req = ''/adsb''"
    and "req_method req \<noteq> ''GET''" "req_method req \<noteq> ''HEAD''" "req_method req \<noteq> ''OPTIONS''"
  shows "dispatch_request req requests_get w =
    (MethodNotAllowed {''GET'', ''HEAD'', ''OPTIONS''}, w)"
  using assms by (auto simp: dispatch_request_def route_rule_def route_methods_eq)

text \<open>A \<^verbatim>\<open>POST\<close> with a body.\<close>

theorem adsb_other_methods_rejected_witness:
  "req_path post_adsb = ''/adsb'' \<and> req_method post_adsb = ''POST''
    \<and> dispatch_request post_adsb (answers no_aircraft) fresh =
        (MethodNotAllowed {''GET'', ''HEAD'', ''OPTIONS''}, fresh)
    \<and> outbound (snd (dispatch_request post_adsb (answers no_aircraft) fresh)) = []"
proof -
  have req: "req_path post_adsb = ''/adsb''" "req_method post_adsb \<noteq> ''GET''"
    "req_method post_adsb \<noteq> ''HEAD''" "req_method post_adsb \<noteq> ''OPTIONS''"
    "req_method post_adsb = ''POST''"
    by (simp_all add: post_adsb_def)
  show ?thesis
    using req adsb_other_methods_rejected [of post_adsb "answers no_aircraft" fresh]
    by (simp add: fresh_def)
qed

subsection \<open>The failure body as JSON\<close>

text \<open>
  A double quote in the message ends the string of the envelope early: unless
  whitespace, a comma or a closing brace follows it, the text is rejected at the next
  byte.
\<close>

lemma envelope_not_json_quote:
  assumes "list_all plain p" and "\<not> ws c" and "c \<noteq> CHR '',''" and "c \<noteq> CHR ''}''"
  shows "\<not> is_json (envelope_head @ (p @ [CHR 0x22, c] @ q) @ envelope_tail)"
proof -
  have "run (Str False, [InObject]) ([CHR 0x22, c] @ q @ envelope_tail) = None"
    using assms(2-4) by (simp add: after_value_def)
  then have "run (Str False, [InObject]) (p @ [CHR 0x22, c] @ q @ envelope_tail) = None"
    using run_plain [OF assms(1), of False "[InObject]"] by (simp only: run_append option.case)
  then show ?thesis
    by (simp add: is_json_def run_append run_envelope_head)
qed

text \<open>
  C4. The view always returns a response, and the response of the failure path is
  declared \<^verbatim>\<open>application/json\<close>. Its body is well-formed JSON when \<^verbatim>\<open>str(e)\<close> is
  made of plain bytes, but \<^verbatim>\<open>str(e)\<close> is inserted without
  escaping: the message of a failed name resolution contains double quotes, and the
  body the view returns for it is not a JSON text.
\<close>

theorem adsb_failure_body_not_json:
  \<open>raises dns_failure ADSB_LOL_URL 5 = Inl dns_failure
    \<and> status (fst (adsb (raises dns_failure) fresh)) = 500
    \<and> content_type (fst (adsb (raises dns_failure) fresh)) = Some ''application/json''
    \<and> \<not> is_json (data (fst (adsb (raises dns_failure) fresh)))\<close>
proof -
  have up: "raises dns_failure ADSB_LOL_URL 5 = Inl dns_failure"
    by (simp add: raises_def)
  note ran = adsb_Inl [of "raises dns_failure" dns_failure fresh, OF up]
  have "run (Str False, [InObject]) (exc_str dns_failure @ envelope_tail) = None"
    by (simp add: dns_failure_def envelope_tail_def after_value_def ws_def control_def)
  then have "\<not> is_json (envelope_head @ exc_str dns_failure @ envelope_tail)"
    by (simp add: is_json_def run_append run_envelope_head)
  then show ?thesis
    using up by (simp add: ran json_cors_headers)
qed

end
